theory Spec2Isabelle
  imports Main "HOL-Library.Sublist"
begin

section \<open>tidy-notes: front-matter enrichment of note files\<close>

text \<open>
  A shallow embedding of \<^verbatim>\<open>main.py\<close>. The program reads a markdown file, parses its
  front matter with the third-party \<^verbatim>\<open>frontmatter\<close> package, fills in the keys
  \<^verbatim>\<open>Created\<close>, \<^verbatim>\<open>Title\<close> and \<^verbatim>\<open>Description\<close> where they are missing
  (the description comes from a language-model agent), and writes the file back.

  What is outside \<^verbatim>\<open>main.py\<close> enters the model as a parameter, collected in the
  record \<open>env\<close>: the agent run, \<^verbatim>\<open>frontmatter.loads\<close>, \<^verbatim>\<open>frontmatter.dumps\<close> and
  \<^verbatim>\<open>datetime.fromtimestamp\<close>. Exceptions are values of type \<open>error\<close> on the left of a sum.
  The file system is a map from paths to nodes, passed in and returned.

  Strings are lists of 8-bit characters. The case conversions below are those of the ASCII
  letters; Python takes the case of any other character from the Unicode database, which the
  model does not contain, so what is stated about derived titles is stated for stems of
  ASCII characters (\<open>ascii_only\<close>).

  Not modelled: \<^verbatim>\<open>summarize_text\<close> (never called), the directory checks and the glob of
  \<^verbatim>\<open>md_files\<close> (the run is over the list of paths it yields), failures of the write
  itself, and exceptions outside \<^verbatim>\<open>Exception\<close>, which \<^verbatim>\<open>process_file\<close> does not catch.
\<close>

subsection \<open>Characters and the string methods used by the program\<close>

definition isupper_c :: "char \<Rightarrow> bool" where
  "isupper_c c = (65 \<le> (of_char c :: nat) \<and> (of_char c :: nat) \<le> 90)"

definition islower_c :: "char \<Rightarrow> bool" where
  "islower_c c = (97 \<le> (of_char c :: nat) \<and> (of_char c :: nat) \<le> 122)"

definition is_cased :: "char \<Rightarrow> bool" where
  "is_cased c = (isupper_c c \<or> islower_c c)"

definition upper_c :: "char \<Rightarrow> char" where
  "upper_c c = (if islower_c c then char_of ((of_char c :: nat) - 32) else c)"

definition lower_c :: "char \<Rightarrow> char" where
  "lower_c c = (if isupper_c c then char_of ((of_char c :: nat) + 32) else c)"

text \<open>
  Python's \<^verbatim>\<open>str.title()\<close> scans the string once: a character that follows a cased
  character is lowercased, every other character is titlecased (uppercased, for ASCII).
  On ASCII characters \<open>py_title\<close> is this scan; a character outside ASCII is passed
  through as uncased, which is not what Python does with a letter such as an accented one.
\<close>

fun title_from :: "bool \<Rightarrow> string \<Rightarrow> string" where
  "title_from prev [] = []"
| "title_from prev (c # cs) =
     (if prev then lower_c c else upper_c c) # title_from (is_cased c) cs"

definition py_title :: "string \<Rightarrow> string" where
  "py_title s = title_from False s"

text \<open>\<^verbatim>\<open>s.replace(old, new)\<close> for one-character \<^verbatim>\<open>old\<close> and \<^verbatim>\<open>new\<close>.\<close>

definition replace_char :: "char \<Rightarrow> char \<Rightarrow> string \<Rightarrow> string" where
  "replace_char old new s = map (\<lambda>c. if c = old then new else c) s"

text \<open>Decimal digits of a natural number, and left padding with zeros (\<^verbatim>\<open>%02d\<close>).\<close>

definition digit_char :: "nat \<Rightarrow> char" where
  "digit_char d = char_of (48 + d)"

fun str_nat :: "nat \<Rightarrow> string" where
  "str_nat n = (if n < 10 then [digit_char n] else str_nat (n div 10) @ [digit_char (n mod 10)])"

declare str_nat.simps [simp del]

definition zero_pad :: "nat \<Rightarrow> string \<Rightarrow> string" where
  "zero_pad w s = replicate (w - length s) (CHR ''0'') @ s"

subsection \<open>Data model\<close>

text \<open>
  \<^verbatim>\<open>pathlib.Path\<close>: the path text and its \<^verbatim>\<open>stem\<close> attribute (the final component
  without its suffix), which is all the program reads from a path besides opening it.
\<close>

record path =
  raw :: string
  stem :: string

text \<open>\<^verbatim>\<open>datetime\<close>: only the calendar date is ever read (by \<^verbatim>\<open>strftime('%Y-%m-%d')\<close>).\<close>

record datetime =
  year :: nat
  month :: nat
  day :: nat

text \<open>\<^verbatim>\<open>class FileData(BaseModel)\<close>\<close>

record FileData =
  text_of :: string
  path :: path
  creation_date :: datetime

text \<open>
  The values a YAML front-matter block gives to a key: null, booleans, integers, strings
  and dates. (Floats, sequences and nested mappings are left out of the model.)
\<close>

datatype pyval =
    PyNone
  | PyBool bool
  | PyInt int
  | PyStr string
  | PyDate nat nat nat

text \<open>
  \<^verbatim>\<open>frontmatter.Post\<close>: the metadata dictionary (insertion ordered, as Python's \<^verbatim>\<open>dict\<close>
  is) and the content.
\<close>

record post =
  metadata :: "(string \<times> pyval) list"
  content :: string

text \<open>
  Exceptions. \<^verbatim>\<open>process_file\<close> tells \<^verbatim>\<open>FileNotFoundError\<close> from every other
  \<^verbatim>\<open>Exception\<close>; the latter carries its message.
\<close>

datatype error =
    FileNotFoundError string
  | OtherException string

subsection \<open>Python's truth value, \<^verbatim>\<open>str()\<close>, and the dictionary operations\<close>

fun truthy :: "pyval \<Rightarrow> bool" where
  "truthy PyNone = False"
| "truthy (PyBool b) = b"
| "truthy (PyInt i) = (i \<noteq> 0)"
| "truthy (PyStr s) = (s \<noteq> [])"
| "truthy (PyDate y m d) = True"

fun isinstance_str :: "pyval \<Rightarrow> bool" where
  "isinstance_str (PyStr s) = True"
| "isinstance_str v = False"

definition str_int :: "int \<Rightarrow> string" where
  "str_int i = (if i < 0 then CHR ''-'' # str_nat (nat (- i)) else str_nat (nat i))"

definition isoformat :: "nat \<Rightarrow> nat \<Rightarrow> nat \<Rightarrow> string" where
  "isoformat y m d =
     zero_pad 4 (str_nat y) @ ''-'' @ zero_pad 2 (str_nat m) @ ''-'' @ zero_pad 2 (str_nat d)"

fun py_str :: "pyval \<Rightarrow> string" where
  "py_str PyNone = ''None''"
| "py_str (PyBool b) = (if b then ''True'' else ''False'')"
| "py_str (PyInt i) = str_int i"
| "py_str (PyStr s) = s"
| "py_str (PyDate y m d) = isoformat y m d"

text \<open>\<^verbatim>\<open>d.get(k)\<close>: the value stored under \<^verbatim>\<open>k\<close>, or \<^verbatim>\<open>None\<close>.\<close>

definition dict_get :: "(string \<times> pyval) list \<Rightarrow> string \<Rightarrow> pyval" where
  "dict_get d k = (case map_of d k of None \<Rightarrow> PyNone | Some v \<Rightarrow> v)"

text \<open>
  \<^verbatim>\<open>d[k] = v\<close>: an existing key keeps its place and takes the new value, a new key goes
  to the end.
\<close>

fun dict_set :: "(string \<times> pyval) list \<Rightarrow> string \<Rightarrow> pyval \<Rightarrow> (string \<times> pyval) list" where
  "dict_set [] k v = [(k, v)]"
| "dict_set ((k', v') # d) k v =
     (if k' = k then (k, v) # d else (k', v') # dict_set d k v)"

subsection \<open>The program\<close>

text \<open>
  \<^verbatim>\<open>file_data.creation_date.strftime('%Y-%m-%d')\<close>, with the year written in four
  digits (as every platform does from the year 1000 on).
\<close>

definition strftime_Ymd :: "datetime \<Rightarrow> string" where
  "strftime_Ymd dt = isoformat (year dt) (month dt) (day dt)"

text \<open>\<^verbatim>\<open>create_title\<close>: \<^verbatim>\<open>file_data.path.stem.title().replace('_', ' ')\<close>\<close>

definition create_title :: "FileData \<Rightarrow> string" where
  "create_title file_data = replace_char (CHR ''_'') (CHR '' '') (py_title (stem (path file_data)))"

text \<open>
  The external capabilities. \<open>run_agent\<close> stands for
  \<^verbatim>\<open>asyncio.run(Runner.run(agent, prompt)).final_output\<close>; the two \<open>fm\<close> fields for
  \<^verbatim>\<open>frontmatter.loads\<close> and \<^verbatim>\<open>frontmatter.dumps\<close>. Each may raise.
\<close>

record agent =
  name :: string
  instructions :: string
  model :: string

type_synonym timestamp = int

record env =
  run_agent :: "agent \<Rightarrow> string \<Rightarrow> error + string"
  fm_loads :: "string \<Rightarrow> error + post"
  fm_dumps :: "post \<Rightarrow> error + string"
  fromtimestamp :: "timestamp \<Rightarrow> datetime"

text \<open>
  The file system: what \<^verbatim>\<open>stat()\<close> reports for a path (\<^verbatim>\<open>st_birthtime\<close> exists on some
  platforms only) and what opening and reading it as UTF-8 text gives, which is an exception
  for a directory, an unreadable file or undecodable bytes.
\<close>

record stat_result =
  st_birthtime :: "timestamp option"
  st_ctime :: timestamp

record node =
  stat :: stat_result
  data :: "error + string"

type_synonym filesystem = "path \<Rightarrow> node option"

text \<open>\<^verbatim>\<open>get_file\<close>\<close>

definition get_file :: "env \<Rightarrow> filesystem \<Rightarrow> path \<Rightarrow> error + FileData" where
  "get_file env fs file_path =
     (case fs file_path of
        None \<Rightarrow> Inl (FileNotFoundError (''File not found: '' @ raw file_path))
      | Some n \<Rightarrow>
          (let stat_info = stat n;
               creation_time = (case st_birthtime stat_info of
                                  Some t \<Rightarrow> t
                                | None \<Rightarrow> st_ctime stat_info);
               creation_date = fromtimestamp env creation_time
           in case data n of
                Inl e \<Rightarrow> Inl e
              | Inr txt \<Rightarrow>
                  Inr \<lparr>text_of = txt, path = file_path, creation_date = creation_date\<rparr>))"

text \<open>\<^verbatim>\<open>describe_text\<close>: the prompt holds the title and the first 2000 characters of the text.\<close>

definition describe_instructions :: string where
  "describe_instructions =
     ''You describe obsidian notes to capture the essence of their purpose, focusing on the main points and return a succinct file description under 100 characters. You should never start the description with the words ''
     @ [CHR 0x27] @ ''File Description:'' @ [CHR 0x27] @ '' or use markdown formatting.s ''"

definition describe_prompt :: "string \<Rightarrow> string \<Rightarrow> string" where
  "describe_prompt title excerpt =
     ''Please describe the note titled '' @ [CHR 0x27] @ title @ [CHR 0x27]
     @ '' with the following content:'' @ [CHR 0x0A, CHR 0x0A] @ excerpt"

definition summarizer :: agent where
  "summarizer =
     \<lparr>name = ''Summarizer'', instructions = describe_instructions, model = ''gpt-4o-mini''\<rparr>"

definition describe_text :: "env \<Rightarrow> string \<Rightarrow> string \<Rightarrow> error + string" where
  "describe_text env txt title = run_agent env summarizer (describe_prompt title (take 2000 txt))"

text \<open>
  Lines 66 to 68 of \<^verbatim>\<open>process_post\<close>: the local variable \<^verbatim>\<open>title\<close> is made a string.
\<close>

fun ensure_str :: "pyval \<Rightarrow> string" where
  "ensure_str (PyStr s) = s"
| "ensure_str PyNone = []"
| "ensure_str v = py_str v"

text \<open>
  \<^verbatim>\<open>process_post\<close> after its first line (lines 57 to 75), on the parsed post. The
  dictionary is built up in the order of the source: \<open>md1\<close> after the \<^verbatim>\<open>Created\<close> step,
  \<open>md2\<close> after the \<^verbatim>\<open>Title\<close> step. When \<^verbatim>\<open>describe_text\<close> raises, the exception leaves
  the function and the post, a local object, is lost.
\<close>

definition enrich :: "env \<Rightarrow> FileData \<Rightarrow> post \<Rightarrow> error + post" where
  "enrich env file_data p =
     (let md0 = metadata p;
          md1 = (if \<not> truthy (dict_get md0 ''Created'')
                 then dict_set md0 ''Created'' (PyStr (strftime_Ymd (creation_date file_data)))
                 else md0);
          title0 = dict_get md1 ''Title'';
          title1 = (if \<not> truthy title0 then PyStr (create_title file_data) else title0);
          md2 = (if \<not> truthy title0 then dict_set md1 ''Title'' title1 else md1);
          title2 = ensure_str title1
      in if \<not> truthy (dict_get md2 ''Description'')
         then (case describe_text env (text_of file_data) title2 of
                 Inl e \<Rightarrow> Inl e
               | Inr d \<Rightarrow> Inr (p\<lparr>metadata := dict_set md2 ''Description'' (PyStr d)\<rparr>))
         else Inr (p\<lparr>metadata := md2\<rparr>))"

text \<open>\<^verbatim>\<open>process_post\<close>\<close>

definition process_post :: "env \<Rightarrow> FileData \<Rightarrow> error + post" where
  "process_post env file_data =
     (case fm_loads env (text_of file_data) of
        Inl e \<Rightarrow> Inl e
      | Inr p \<Rightarrow> enrich env file_data p)"

text \<open>
  \<^verbatim>\<open>save_file\<close>: the text is produced first, then the file is opened for writing and
  written. Only the data of the node changes in the model; the write itself does not fail.
\<close>

definition write_text :: "filesystem \<Rightarrow> path \<Rightarrow> string \<Rightarrow> filesystem" where
  "write_text fs file_path s =
     (case fs file_path of
        Some n \<Rightarrow> fs(file_path \<mapsto> n\<lparr>data := Inr s\<rparr>)
      | None \<Rightarrow> fs(file_path \<mapsto> \<lparr>stat = \<lparr>st_birthtime = None, st_ctime = 0\<rparr>, data = Inr s\<rparr>))"

definition save_file :: "env \<Rightarrow> filesystem \<Rightarrow> path \<Rightarrow> post \<Rightarrow> error + filesystem" where
  "save_file env fs file_path p =
     (case fm_dumps env p of
        Inl e \<Rightarrow> Inl e
      | Inr s \<Rightarrow> Inr (write_text fs file_path s))"

text \<open>
  \<^verbatim>\<open>process_file\<close>: the three steps under one \<^verbatim>\<open>try\<close>; the result is the file system
  afterwards and the line printed.
\<close>

definition load_and_process :: "env \<Rightarrow> filesystem \<Rightarrow> path \<Rightarrow> error + filesystem" where
  "load_and_process env fs file =
     (case get_file env fs file of
        Inl e \<Rightarrow> Inl e
      | Inr file_data \<Rightarrow>
          (case process_post env file_data of
             Inl e \<Rightarrow> Inl e
           | Inr p \<Rightarrow> save_file env fs file p))"

fun report :: "error \<Rightarrow> string" where
  "report (FileNotFoundError msg) = ''Error: '' @ msg"
| "report (OtherException msg) = ''Unexpected error: '' @ msg"

definition process_file :: "env \<Rightarrow> filesystem \<Rightarrow> path \<Rightarrow> filesystem \<times> string" where
  "process_file env fs file =
     (case load_and_process env fs file of
        Inr fs' \<Rightarrow> (fs', ''Successfully processed: '' @ raw file)
      | Inl e \<Rightarrow> (fs, report e))"

text \<open>
  The loop of \<^verbatim>\<open>main\<close> over the paths that \<^verbatim>\<open>md_files\<close> yields: the file system after
  the run and the lines printed, one for each file.
\<close>

fun process_all :: "env \<Rightarrow> filesystem \<Rightarrow> path list \<Rightarrow> filesystem \<times> string list" where
  "process_all env fs [] = (fs, [])"
| "process_all env fs (file # files) =
     (let (fs1, line) = process_file env fs file;
          (fs2, lines) = process_all env fs1 files
      in (fs2, line # lines))"

subsection \<open>The specification's wording, as definitions of its own\<close>

text \<open>
  Letters and their two cases, as explicit tables over the ASCII alphabet. The definitions
  of this subsection use these tables and none of the character functions of the program
  model above.
\<close>

definition lower_letters :: string where
  "lower_letters = ''abcdefghijklmnopqrstuvwxyz''"

definition upper_letters :: string where
  "upper_letters = ''ABCDEFGHIJKLMNOPQRSTUVWXYZ''"

definition is_letter :: "char \<Rightarrow> bool" where
  "is_letter c = (c \<in> set lower_letters \<or> c \<in> set upper_letters)"

definition to_upper :: "char \<Rightarrow> char" where
  "to_upper c = (case map_of (zip lower_letters upper_letters) c of Some u \<Rightarrow> u | None \<Rightarrow> c)"

definition to_lower :: "char \<Rightarrow> char" where
  "to_lower c = (case map_of (zip upper_letters lower_letters) c of Some l \<Rightarrow> l | None \<Rightarrow> c)"

definition underscores_to_spaces :: "string \<Rightarrow> string" where
  "underscores_to_spaces s = map (\<lambda>c. if c = CHR ''_'' then CHR '' '' else c) s"

text \<open>
  The specification derives a title by replacing underscores with spaces and capitalizing
  each word. \<open>spec_title\<close> does that as it is worded: the words are what stands between
  the spaces, and capitalizing a word puts its first character in upper case.
\<close>

fun split_on :: "char \<Rightarrow> string \<Rightarrow> string list" where
  "split_on sep [] = [[]]"
| "split_on sep (c # cs) =
     (if c = sep then [] # split_on sep cs
      else (case split_on sep cs of [] \<Rightarrow> [[c]] | w # ws \<Rightarrow> (c # w) # ws))"

fun join_with :: "char \<Rightarrow> string list \<Rightarrow> string" where
  "join_with sep [] = []"
| "join_with sep [w] = w"
| "join_with sep (w # ws) = w @ sep # join_with sep ws"

definition capitalize_word :: "string \<Rightarrow> string" where
  "capitalize_word w = (case w of [] \<Rightarrow> [] | c # cs \<Rightarrow> to_upper c # cs)"

definition spec_title :: "string \<Rightarrow> string" where
  "spec_title s =
     join_with (CHR '' '') (map capitalize_word (split_on (CHR '' '') (underscores_to_spaces s)))"

text \<open>
  The amended wording: the units that are capitalized are the maximal runs of letters, and
  capitalizing a run puts its first letter in upper case and its other letters in lower
  case. So a letter that follows a digit or an apostrophe starts a run of its own.
\<close>

definition capitalize_run :: "string \<Rightarrow> string" where
  "capitalize_run w = (case w of [] \<Rightarrow> [] | c # cs \<Rightarrow> to_upper c # map to_lower cs)"

function capitalize_runs :: "string \<Rightarrow> string" where
  "capitalize_runs [] = []"
| "capitalize_runs (c # cs) =
     (if is_letter c
      then capitalize_run (c # takeWhile is_letter cs) @ capitalize_runs (dropWhile is_letter cs)
      else c # capitalize_runs cs)"
  by pat_completeness auto
termination
  by (relation "measure length") (auto simp: length_dropWhile_le less_Suc_eq_le)

definition letter_run_title :: "string \<Rightarrow> string" where
  "letter_run_title s = capitalize_runs (underscores_to_spaces s)"

text \<open>
  Python takes the case of a character outside ASCII from the Unicode database, which is
  not part of the model; statements about derived titles are made for stems of ASCII
  characters.
\<close>

definition ascii_only :: "string \<Rightarrow> bool" where
  "ascii_only s = list_all (\<lambda>c. (of_char c :: nat) < 128) s"

text \<open>
  The specification stores the trimmed result of the generator. \<open>py_strip\<close> is
  \<^verbatim>\<open>str.strip()\<close> for the ASCII whitespace characters.
\<close>

definition is_space :: "char \<Rightarrow> bool" where
  "is_space c = (c \<in> {CHR '' '', CHR 0x09, CHR 0x0A, CHR 0x0B, CHR 0x0C, CHR 0x0D})"

definition py_strip :: "string \<Rightarrow> string" where
  "py_strip s = rev (dropWhile is_space (rev (dropWhile is_space s)))"

text \<open>The keys that enrichment may touch, and the entries of a dictionary under all other keys.\<close>

definition enriched_keys :: "string set" where
  "enriched_keys = {''Created'', ''Title'', ''Description''}"

definition other_entries :: "(string \<times> pyval) list \<Rightarrow> (string \<times> pyval) list" where
  "other_entries d = filter (\<lambda>kv. fst kv \<notin> enriched_keys) d"

subsection \<open>Concrete inputs\<close>

definition ex_path :: path where
  "ex_path = \<lparr>raw = ''notes/pytexas_2024.md'', stem = ''pytexas_2024''\<rparr>"

definition ex_missing :: path where
  "ex_missing = \<lparr>raw = ''notes/gone.md'', stem = ''gone''\<rparr>"

definition ex_date :: datetime where
  "ex_date = \<lparr>year = 2024, month = 4, day = 19\<rparr>"

definition ex_file_data :: FileData where
  "ex_file_data = \<lparr>text_of = ''Talk notes'', path = ex_path, creation_date = ex_date\<rparr>"

definition ex_3d_file_data :: FileData where
  "ex_3d_file_data =
     \<lparr>text_of = ''Talk notes'', path = \<lparr>raw = ''notes/3d_model.md'', stem = ''3d_model''\<rparr>,
      creation_date = ex_date\<rparr>"

definition ex_zero_title_post :: post where
  "ex_zero_title_post =
     \<lparr>metadata = [(''Created'', PyStr ''2024-04-19''), (''Title'', PyInt 0),
                  (''Description'', PyStr ''Notes from the conference'')],
      content = ''Talk notes''\<rparr>"

definition ex_false_title_post :: post where
  "ex_false_title_post =
     \<lparr>metadata = [(''Created'', PyStr ''2024-04-19''), (''Title'', PyBool False),
                  (''Description'', PyStr ''Notes from the conference'')],
      content = ''Talk notes''\<rparr>"

definition ex_long_file_data :: FileData where
  "ex_long_file_data =
     \<lparr>text_of = replicate 3000 (CHR ''a''), path = ex_path, creation_date = ex_date\<rparr>"

text \<open>
  An environment whose agent answers every prompt with \<open>reply\<close>, and one whose agent
  always fails. Their parser finds no front matter and their serializer writes the content
  only; both stand in for the \<^verbatim>\<open>frontmatter\<close> package.
\<close>

definition env_reply :: "string \<Rightarrow> env" where
  "env_reply reply =
     \<lparr>run_agent = (\<lambda>a prompt. Inr reply),
      fm_loads = (\<lambda>s. Inr \<lparr>metadata = [], content = s\<rparr>),
      fm_dumps = (\<lambda>p. Inr (content p)),
      fromtimestamp = (\<lambda>t. ex_date)\<rparr>"

definition env_down :: env where
  "env_down =
     \<lparr>run_agent = (\<lambda>a prompt. Inl (OtherException ''backend unavailable'')),
      fm_loads = (\<lambda>s. Inr \<lparr>metadata = [], content = s\<rparr>),
      fm_dumps = (\<lambda>p. Inr (content p)),
      fromtimestamp = (\<lambda>t. ex_date)\<rparr>"

definition ex_fs :: filesystem where
  "ex_fs =
     Map.empty(ex_path \<mapsto>
       \<lparr>stat = \<lparr>st_birthtime = None, st_ctime = 1713500000\<rparr>, data = Inr ''Talk notes''\<rparr>)"

definition ex_empty_post :: post where
  "ex_empty_post = \<lparr>metadata = [], content = ''Talk notes''\<rparr>"

definition ex_numeric_title_post :: post where
  "ex_numeric_title_post =
     \<lparr>metadata = [(''Title'', PyInt 2024), (''Created'', PyStr ''2024-04-19''),
                  (''Description'', PyStr ''Notes from the conference''), (''tags'', PyStr ''talks'')],
      content = ''Talk notes''\<rparr>"

definition ex_untitled_post :: post where
  "ex_untitled_post = \<lparr>metadata = [(''tags'', PyStr ''talks'')], content = ''Talk notes''\<rparr>"

section \<open>Properties\<close>

subsection \<open>Characters and title case\<close>

lemma upper_c_uncased: "\<not> is_cased c \<Longrightarrow> upper_c c = c"
  by (simp add: upper_c_def is_cased_def)

lemma lower_c_uncased: "\<not> is_cased c \<Longrightarrow> lower_c c = c"
  by (simp add: lower_c_def is_cased_def)

lemma of_char_upper_c: "islower_c c \<Longrightarrow> (of_char (upper_c c) :: nat) = of_char c - 32"
  by (auto simp add: upper_c_def islower_c_def)

lemma of_char_lower_c: "isupper_c c \<Longrightarrow> (of_char (lower_c c) :: nat) = of_char c + 32"
  by (auto simp add: lower_c_def isupper_c_def)

lemma upper_c_underscore: "(upper_c c = CHR ''_'') = (c = CHR ''_'')"
proof (cases "islower_c c")
  case True
  then have "(of_char (upper_c c) :: nat) \<le> 90" "(of_char c :: nat) \<ge> 97"
    by (auto simp add: of_char_upper_c islower_c_def)
  moreover have "(of_char (CHR ''_'') :: nat) = 95" by simp
  ultimately have "upper_c c \<noteq> CHR ''_''" "c \<noteq> CHR ''_''" by auto
  then show ?thesis by simp
next
  case False
  then show ?thesis by (simp add: upper_c_def)
qed

lemma lower_c_underscore: "(lower_c c = CHR ''_'') = (c = CHR ''_'')"
proof (cases "isupper_c c")
  case True
  then have "(of_char (lower_c c) :: nat) \<ge> 97" "(of_char c :: nat) \<le> 90"
    by (auto simp add: of_char_lower_c isupper_c_def)
  moreover have "(of_char (CHR ''_'') :: nat) = 95" by simp
  ultimately have "lower_c c \<noteq> CHR ''_''" "c \<noteq> CHR ''_''" by auto
  then show ?thesis by simp
next
  case False
  then show ?thesis by (simp add: lower_c_def)
qed

lemma underscore_uncased: "\<not> is_cased (CHR ''_'')" "\<not> is_cased (CHR '' '')"
  by (simp_all add: is_cased_def isupper_c_def islower_c_def)

text \<open>After a cased character the scan is inside a word: it lowercases up to the word's end.\<close>

lemma title_from_True:
  "title_from True s = map lower_c (takeWhile is_cased s) @ title_from False (dropWhile is_cased s)"
proof (induction s)
  case Nil
  show ?case by simp
next
  case (Cons c cs)
  show ?case
  proof (cases "is_cased c")
    case True
    with Cons show ?thesis by simp
  next
    case False
    then show ?thesis by (simp add: lower_c_uncased upper_c_uncased)
  qed
qed

text \<open>
  The character functions of the program model agree with the letter tables: the ASCII
  letters are exactly the cased characters, and the case conversions are the same.
\<close>

lemma lower_range: "map char_of [97..<123::nat] = lower_letters"
  by (simp add: lower_letters_def upt_rec char_of_def bit_Suc_0_iff)

lemma upper_range: "map char_of [65..<91::nat] = upper_letters"
  by (simp add: upper_letters_def upt_rec char_of_def bit_Suc_0_iff)

lemma islower_c_iff: "islower_c c = (c \<in> set lower_letters)"
proof
  assume "islower_c c"
  then have "97 \<le> (of_char c :: nat) \<and> (of_char c :: nat) < 123"
    by (simp add: islower_c_def)
  then have "(of_char c :: nat) \<in> set [97..<123]"
    by (simp only: set_upt atLeastLessThan_iff)
  then have "char_of (of_char c :: nat) \<in> set (map char_of [97..<123::nat])"
    by (simp only: set_map image_eqI [OF refl])
  then show "c \<in> set lower_letters"
    by (simp only: lower_range char_of_char)
next
  assume "c \<in> set lower_letters"
  then show "islower_c c"
    by (auto simp: lower_letters_def islower_c_def)
qed

lemma isupper_c_iff: "isupper_c c = (c \<in> set upper_letters)"
proof
  assume "isupper_c c"
  then have "65 \<le> (of_char c :: nat) \<and> (of_char c :: nat) < 91"
    by (simp add: isupper_c_def)
  then have "(of_char c :: nat) \<in> set [65..<91]"
    by (simp only: set_upt atLeastLessThan_iff)
  then have "char_of (of_char c :: nat) \<in> set (map char_of [65..<91::nat])"
    by (simp only: set_map image_eqI [OF refl])
  then show "c \<in> set upper_letters"
    by (simp only: upper_range char_of_char)
next
  assume "c \<in> set upper_letters"
  then show "isupper_c c"
    by (auto simp: upper_letters_def isupper_c_def)
qed

lemma is_cased_is_letter: "is_cased c = is_letter c"
  by (auto simp: is_cased_def is_letter_def islower_c_iff isupper_c_iff)

lemma upper_c_to_upper: "upper_c c = to_upper c"
proof (cases "c \<in> set lower_letters")
  case True
  then show ?thesis
    by (auto simp: lower_letters_def upper_letters_def to_upper_def upper_c_def islower_c_def
        char_of_def bit_Suc_0_iff)
next
  case False
  then have "map_of (zip lower_letters upper_letters) c = None"
    by (simp add: map_of_zip_is_None lower_letters_def upper_letters_def)
  with False show ?thesis
    by (simp add: to_upper_def upper_c_def islower_c_iff)
qed

lemma lower_c_to_lower: "lower_c c = to_lower c"
proof (cases "c \<in> set upper_letters")
  case True
  then show ?thesis
    by (auto simp: lower_letters_def upper_letters_def to_lower_def lower_c_def isupper_c_def
        char_of_def bit_Suc_0_iff)
next
  case False
  then have "map_of (zip upper_letters lower_letters) c = None"
    by (simp add: map_of_zip_is_None lower_letters_def upper_letters_def)
  with False show ?thesis
    by (simp add: to_lower_def lower_c_def isupper_c_iff)
qed

lemma cased_fun: "is_cased = is_letter" and lower_fun: "lower_c = to_lower"
  by (simp_all add: fun_eq_iff is_cased_is_letter lower_c_to_lower)

lemma title_from_False_runs: "title_from False s = capitalize_runs s"
proof (induction s rule: capitalize_runs.induct)
  case 1
  show ?case by simp
next
  case (2 c cs)
  show ?case
  proof (cases "is_letter c")
    case True
    then have "title_from False (c # cs) = upper_c c # title_from True cs"
      by (simp add: is_cased_is_letter)
    also have "\<dots> = to_upper c # map to_lower (takeWhile is_letter cs)
                      @ title_from False (dropWhile is_letter cs)"
      by (simp add: title_from_True upper_c_to_upper cased_fun lower_fun)
    also have "\<dots> = capitalize_runs (c # cs)"
      using True 2 by (simp add: capitalize_run_def)
    finally show ?thesis .
  next
    case False
    with 2 show ?thesis
      by (simp add: upper_c_uncased is_cased_is_letter)
  qed
qed

text \<open>Title-casing and the replacement of underscores can be done in either order.\<close>

lemma title_from_replace:
  "title_from b (replace_char (CHR ''_'') (CHR '' '') s)
     = replace_char (CHR ''_'') (CHR '' '') (title_from b s)"
proof (induction s arbitrary: b)
  case Nil
  show ?case by (simp add: replace_char_def)
next
  case (Cons c cs)
  have rest: "title_from (is_cased c) (map (\<lambda>c. if c = CHR ''_'' then CHR '' '' else c) cs)
        = map (\<lambda>c. if c = CHR ''_'' then CHR '' '' else c) (title_from (is_cased c) cs)"
    using Cons [of "is_cased c"] by (simp add: replace_char_def)
  show ?case
  proof (cases "c = CHR ''_''")
    case True
    with rest show ?thesis
      by (simp add: replace_char_def underscore_uncased upper_c_uncased lower_c_uncased)
  next
    case False
    with rest show ?thesis
      by (simp add: replace_char_def upper_c_underscore lower_c_underscore)
  qed
qed

lemma length_title_from: "length (title_from b s) = length s"
  by (induction s arbitrary: b) auto

lemma create_title_nonempty: "stem (path file_data) \<noteq> [] \<Longrightarrow> create_title file_data \<noteq> []"
  using length_title_from [of False "stem (path file_data)"]
  by (auto simp: create_title_def py_title_def replace_char_def)

lemma isoformat_nonempty: "isoformat y m d \<noteq> []"
  by (simp add: isoformat_def)

text \<open>Evaluation of titles on concrete stems.\<close>

lemmas letter_simps =
  letter_run_title_def spec_title_def underscores_to_spaces_def capitalize_run_def
  capitalize_word_def is_letter_def to_upper_def to_lower_def lower_letters_def upper_letters_def

lemmas title_simps =
  create_title_def py_title_def replace_char_def upper_c_def lower_c_def
  is_cased_def islower_c_def isupper_c_def char_of_def bit_Suc_0_iff

text \<open>
  Claim C9, as the specification words it, fails: for the stem \<^verbatim>\<open>3d_model\<close>,
  replacing the underscore by a space and capitalizing each word gives \<^verbatim>\<open>3d Model\<close>,
  while the program derives \<^verbatim>\<open>3D Model\<close>.
\<close>

theorem capitalized_words_counterexample:
  "create_title ex_3d_file_data = ''3D Model''
   \<and> spec_title (stem (path ex_3d_file_data)) = ''3d Model''"
  by (simp add: ex_3d_file_data_def title_simps letter_simps)

text \<open>
  Claim C9, amended. For a file whose stem consists of ASCII characters, the derived title
  is a function of the stem alone: the stem with its underscores replaced by spaces and
  each maximal run of letters capitalized, that is, with its first letter in upper case and
  its other letters in lower case. For the stem \<^verbatim>\<open>pytexas_2024\<close> it is
  \<^verbatim>\<open>Pytexas 2024\<close>.
\<close>

theorem create_title_capitalizes_letter_runs:
  assumes "ascii_only (stem (path file_data))"
  shows "create_title file_data = letter_run_title (stem (path file_data))
   \<and> create_title (file_data\<lparr>path := (path file_data)\<lparr>stem := ''pytexas_2024''\<rparr>\<rparr>) = ''Pytexas 2024''"
proof
  have "create_title file_data
        = replace_char (CHR ''_'') (CHR '' '') (title_from False (stem (path file_data)))"
    by (simp add: create_title_def py_title_def)
  also have "\<dots> = title_from False (replace_char (CHR ''_'') (CHR '' '') (stem (path file_data)))"
    by (simp add: title_from_replace)
  also have "\<dots> = capitalize_runs (replace_char (CHR ''_'') (CHR '' '') (stem (path file_data)))"
    by (rule title_from_False_runs)
  finally show "create_title file_data = letter_run_title (stem (path file_data))"
    by (simp add: letter_run_title_def underscores_to_spaces_def replace_char_def)
  show "create_title (file_data\<lparr>path := (path file_data)\<lparr>stem := ''pytexas_2024''\<rparr>\<rparr>) = ''Pytexas 2024''"
    by (simp add: title_simps)
qed

theorem create_title_capitalizes_letter_runs_witness:
  "ascii_only (stem (path ex_3d_file_data))
   \<and> create_title ex_3d_file_data = letter_run_title ''3d_model''
   \<and> letter_run_title ''3d_model'' = ''3D Model''
   \<and> letter_run_title ''hello_world'' = ''Hello World''
   \<and> letter_run_title ''pytexas_2024'' = ''Pytexas 2024''"
proof -
  have ascii: "ascii_only (stem (path ex_3d_file_data))"
    by (simp add: ascii_only_def ex_3d_file_data_def)
  have stem: "stem (path ex_3d_file_data) = ''3d_model''"
    by (simp add: ex_3d_file_data_def)
  have runs: "letter_run_title ''3d_model'' = ''3D Model''"
    "letter_run_title ''hello_world'' = ''Hello World''"
    "letter_run_title ''pytexas_2024'' = ''Pytexas 2024''"
    by (simp_all add: letter_simps)
  show ?thesis
    using ascii runs create_title_capitalizes_letter_runs [OF ascii] by (simp add: stem)
qed

subsection \<open>Dictionary operations\<close>

lemma map_of_dict_set: "map_of (dict_set d k v) = (map_of d)(k \<mapsto> v)"
  by (induction d k v rule: dict_set.induct) auto

lemma dict_get_dict_set: "dict_get (dict_set d k v) k' = (if k' = k then v else dict_get d k')"
  by (simp add: dict_get_def map_of_dict_set)

lemma other_entries_dict_set:
  "k \<in> enriched_keys \<Longrightarrow> other_entries (dict_set d k v) = other_entries d"
  by (induction d k v rule: dict_set.induct) (auto simp: other_entries_def)

lemma keys_dict_set: "prefix (map fst d) (map fst (dict_set d k v))"
  by (induction d k v rule: dict_set.induct) auto

lemma keys_dict_set_trans:
  "prefix xs (map fst d) \<Longrightarrow> prefix xs (map fst (dict_set d k v))"
  using keys_dict_set prefix_order.trans by blast

subsection \<open>Enrichment\<close>

lemma enrich_content: "enrich env file_data p = Inr p' \<Longrightarrow> content p' = content p"
  by (auto simp: enrich_def Let_def split: if_splits sum.splits)

lemma enrich_other_entries:
  "enrich env file_data p = Inr p' \<Longrightarrow> other_entries (metadata p') = other_entries (metadata p)"
  by (auto simp: enrich_def Let_def other_entries_dict_set enriched_keys_def
      split: if_splits sum.splits)

lemma enrich_keys_prefix:
  "enrich env file_data p = Inr p' \<Longrightarrow> prefix (map fst (metadata p)) (map fst (metadata p'))"
  by (auto simp: enrich_def Let_def split: if_splits sum.splits intro!: keys_dict_set_trans)

lemma enrich_other_keys:
  "enrich env file_data p = Inr p' \<Longrightarrow> k \<notin> enriched_keys \<Longrightarrow>
   map_of (metadata p') k = map_of (metadata p) k"
  by (auto simp: enrich_def Let_def map_of_dict_set enriched_keys_def split: if_splits sum.splits)

text \<open>
  The presence test of the program is Python's truth value: besides an absent key, the
  empty string, \<^verbatim>\<open>None\<close>, \<^verbatim>\<open>False\<close> and the number 0 count as missing and are filled.
\<close>

lemma empty_values_are_filled:
  assumes "enrich env file_data p = Inr p'"
  shows "\<not> truthy (dict_get (metadata p) ''Created'')
           \<Longrightarrow> dict_get (metadata p') ''Created'' = PyStr (strftime_Ymd (creation_date file_data))"
    and "\<not> truthy (dict_get (metadata p) ''Title'')
           \<Longrightarrow> dict_get (metadata p') ''Title'' = PyStr (create_title file_data)"
  using assms
  by (auto simp: enrich_def Let_def dict_get_dict_set split: if_splits sum.splits)

text \<open>Evaluation of the model on concrete inputs.\<close>

lemmas eval_simps =
  enrich_def describe_text_def dict_get_def Let_def strftime_Ymd_def isoformat_def
  zero_pad_def str_nat.simps digit_char_def char_of_def bit_Suc_0_iff
  create_title_def py_title_def replace_char_def upper_c_def lower_c_def
  is_cased_def islower_c_def isupper_c_def
  ex_file_data_def ex_long_file_data_def ex_3d_file_data_def ex_path_def ex_date_def env_reply_def env_down_def enriched_keys_def

text \<open>
  Claim C3, as the specification words it, fails: a \<^verbatim>\<open>Title\<close> that is present with the
  value 0 is replaced by the derived title.
\<close>

theorem zero_title_counterexample:
  "map_of (metadata ex_zero_title_post) ''Title'' = Some (PyInt 0)
   \<and> enrich env_down ex_file_data ex_zero_title_post
     = Inr \<lparr>metadata = [(''Created'', PyStr ''2024-04-19''), (''Title'', PyStr ''Pytexas 2024''),
                        (''Description'', PyStr ''Notes from the conference'')],
            content = ''Talk notes''\<rparr>"
  by (simp add: eval_simps ex_zero_title_post_def)

text \<open>
  Claim C3, amended. When enrichment returns a note, each of the keys \<^verbatim>\<open>Created\<close>,
  \<^verbatim>\<open>Title\<close> and \<^verbatim>\<open>Description\<close> that held before a value which Python counts as true
  (a non-empty string, a date, a number other than 0, \<^verbatim>\<open>True\<close>) is still present and
  holds the same value.
\<close>

theorem enrich_keeps_existing_values:
  assumes "enrich env file_data p = Inr p'"
    and "k \<in> enriched_keys"
    and "truthy (dict_get (metadata p) k)"
  shows "map_of (metadata p') k = map_of (metadata p) k
       \<and> dict_get (metadata p') k = dict_get (metadata p) k"
  using assms
  by (auto simp: enrich_def Let_def dict_get_dict_set map_of_dict_set enriched_keys_def
      split: if_splits sum.splits)

theorem enrich_keeps_existing_values_witness:
  "enrich (env_reply ''Notes from the conference'') ex_file_data
       \<lparr>metadata = [(''Title'', PyInt 2024), (''tags'', PyStr ''talks'')], content = ''Talk notes''\<rparr>
     = Inr \<lparr>metadata = [(''Title'', PyInt 2024), (''tags'', PyStr ''talks''),
                        (''Created'', PyStr ''2024-04-19''),
                        (''Description'', PyStr ''Notes from the conference'')],
            content = ''Talk notes''\<rparr>
   \<and> ''Title'' \<in> enriched_keys
   \<and> truthy (dict_get [(''Title'', PyInt 2024), (''tags'', PyStr ''talks'')] ''Title'')
   \<and> map_of [(''Title'', PyInt 2024), (''tags'', PyStr ''talks''),
              (''Created'', PyStr ''2024-04-19''),
              (''Description'', PyStr ''Notes from the conference'')] ''Title''
     = map_of [(''Title'', PyInt 2024), (''tags'', PyStr ''talks'')] ''Title''"
proof -
  have run: "enrich (env_reply ''Notes from the conference'') ex_file_data
       \<lparr>metadata = [(''Title'', PyInt 2024), (''tags'', PyStr ''talks'')], content = ''Talk notes''\<rparr>
     = Inr \<lparr>metadata = [(''Title'', PyInt 2024), (''tags'', PyStr ''talks''),
                        (''Created'', PyStr ''2024-04-19''),
                        (''Description'', PyStr ''Notes from the conference'')],
            content = ''Talk notes''\<rparr>"
    by (simp add: eval_simps)
  have key: "''Title'' \<in> enriched_keys" by (simp add: enriched_keys_def)
  have val: "truthy (dict_get (metadata
       \<lparr>metadata = [(''Title'', PyInt 2024), (''tags'', PyStr ''talks'')], content = ''Talk notes''\<rparr>) ''Title'')"
    by (simp add: dict_get_def)
  show ?thesis
    using run key val enrich_keeps_existing_values [OF run key val] by simp
qed

text \<open>
  Claim C10. When enrichment returns a note, its body is the body it was given; the
  entries under keys other than \<^verbatim>\<open>Created\<close>, \<^verbatim>\<open>Title\<close> and \<^verbatim>\<open>Description\<close> are the
  same entries in the same order; every key keeps its position (new keys are appended); and
  looking up any other key gives what it gave before.
\<close>

theorem enrich_frame:
  assumes "enrich env file_data p = Inr p'"
  shows "content p' = content p
       \<and> other_entries (metadata p') = other_entries (metadata p)
       \<and> prefix (map fst (metadata p)) (map fst (metadata p'))
       \<and> (\<forall>k. k \<notin> enriched_keys \<longrightarrow> map_of (metadata p') k = map_of (metadata p) k)"
  using assms enrich_content enrich_other_entries enrich_keys_prefix enrich_other_keys
  by blast

theorem enrich_frame_witness:
  "enrich (env_reply ''Notes from the conference'') ex_file_data ex_untitled_post
     = Inr \<lparr>metadata = [(''tags'', PyStr ''talks''), (''Created'', PyStr ''2024-04-19''),
                        (''Title'', PyStr ''Pytexas 2024''),
                        (''Description'', PyStr ''Notes from the conference'')],
            content = ''Talk notes''\<rparr>
   \<and> other_entries [(''tags'', PyStr ''talks''), (''Created'', PyStr ''2024-04-19''),
                     (''Title'', PyStr ''Pytexas 2024''),
                     (''Description'', PyStr ''Notes from the conference'')]
     = other_entries (metadata ex_untitled_post)
   \<and> prefix (map fst (metadata ex_untitled_post))
        [''tags'', ''Created'', ''Title'', ''Description'']"
proof -
  have run: "enrich (env_reply ''Notes from the conference'') ex_file_data ex_untitled_post
     = Inr \<lparr>metadata = [(''tags'', PyStr ''talks''), (''Created'', PyStr ''2024-04-19''),
                        (''Title'', PyStr ''Pytexas 2024''),
                        (''Description'', PyStr ''Notes from the conference'')],
            content = ''Talk notes''\<rparr>"
    by (simp add: eval_simps ex_untitled_post_def)
  show ?thesis
    using run enrich_frame [OF run] by simp
qed

text \<open>A note in which the three keys pass the presence test comes back as it is.\<close>

lemma enrich_complete_noop:
  assumes "truthy (dict_get (metadata p) ''Created'')"
    and "truthy (dict_get (metadata p) ''Title'')"
    and "truthy (dict_get (metadata p) ''Description'')"
  shows "enrich env file_data p = Inr p"
  using assms by (simp add: enrich_def Let_def)

text \<open>
  Claim C2. For a note in which \<^verbatim>\<open>Created\<close>, \<^verbatim>\<open>Title\<close> and \<^verbatim>\<open>Description\<close> are all
  missing (absent or empty), for a file with a non-empty stem, and when the generator
  answers with a non-empty description \<open>d\<close>: enrichment returns a note holding the formatted
  creation date, the derived title and \<open>d\<close>; and enriching that note again returns it
  unchanged whatever the environment and the file are, so the generator is not consulted.
\<close>

theorem enrich_populates_then_noop:
  assumes "\<not> truthy (dict_get (metadata p) ''Created'')"
    and "\<not> truthy (dict_get (metadata p) ''Title'')"
    and "\<not> truthy (dict_get (metadata p) ''Description'')"
    and "stem (path file_data) \<noteq> []"
    and "describe_text env (text_of file_data) (create_title file_data) = Inr d"
    and "d \<noteq> []"
  shows "\<exists>p'. enrich env file_data p = Inr p'
      \<and> dict_get (metadata p') ''Created'' = PyStr (strftime_Ymd (creation_date file_data))
      \<and> dict_get (metadata p') ''Title'' = PyStr (create_title file_data)
      \<and> dict_get (metadata p') ''Description'' = PyStr d
      \<and> truthy (dict_get (metadata p') ''Created'')
      \<and> truthy (dict_get (metadata p') ''Title'')
      \<and> truthy (dict_get (metadata p') ''Description'')
      \<and> (\<forall>env' file_data'. enrich env' file_data' p' = Inr p')"
  using assms create_title_nonempty [of file_data]
  by (simp add: enrich_def Let_def dict_get_dict_set strftime_Ymd_def isoformat_nonempty)

theorem enrich_populates_then_noop_witness:
  "\<not> truthy (dict_get (metadata ex_empty_post) ''Created'')
   \<and> \<not> truthy (dict_get (metadata ex_empty_post) ''Title'')
   \<and> \<not> truthy (dict_get (metadata ex_empty_post) ''Description'')
   \<and> stem (path ex_file_data) \<noteq> []
   \<and> describe_text (env_reply ''Notes from the conference'') (text_of ex_file_data)
        (create_title ex_file_data) = Inr ''Notes from the conference''
   \<and> (\<exists>p'. enrich (env_reply ''Notes from the conference'') ex_file_data ex_empty_post = Inr p'
      \<and> dict_get (metadata p') ''Created'' = PyStr ''2024-04-19''
      \<and> dict_get (metadata p') ''Title'' = PyStr ''Pytexas 2024''
      \<and> dict_get (metadata p') ''Description'' = PyStr ''Notes from the conference''
      \<and> enrich env_down ex_file_data p' = Inr p')"
proof -
  have h1: "\<not> truthy (dict_get (metadata ex_empty_post) ''Created'')"
    and h2: "\<not> truthy (dict_get (metadata ex_empty_post) ''Title'')"
    and h3: "\<not> truthy (dict_get (metadata ex_empty_post) ''Description'')"
    by (simp_all add: ex_empty_post_def dict_get_def)
  have h4: "stem (path ex_file_data) \<noteq> []"
    by (simp add: ex_file_data_def ex_path_def)
  have h5: "describe_text (env_reply ''Notes from the conference'') (text_of ex_file_data)
        (create_title ex_file_data) = Inr ''Notes from the conference''"
    by (simp add: describe_text_def env_reply_def)
  have h6: "''Notes from the conference'' \<noteq> []" by simp
  have date: "strftime_Ymd (creation_date ex_file_data) = ''2024-04-19''"
    by (simp add: eval_simps)
  have title: "create_title ex_file_data = ''Pytexas 2024''"
    by (simp add: eval_simps)
  from enrich_populates_then_noop [OF h1 h2 h3 h4 h5 h6]
  obtain p' where "enrich (env_reply ''Notes from the conference'') ex_file_data ex_empty_post = Inr p'"
    and "dict_get (metadata p') ''Created'' = PyStr (strftime_Ymd (creation_date ex_file_data))"
    and "dict_get (metadata p') ''Title'' = PyStr (create_title ex_file_data)"
    and "dict_get (metadata p') ''Description'' = PyStr ''Notes from the conference''"
    and "\<forall>env' file_data'. enrich env' file_data' p' = Inr p'"
    by blast
  then show ?thesis
    using h1 h2 h3 h4 h5 date title by auto
qed

text \<open>
  Claim C6, as the specification words it, fails: a numeric \<^verbatim>\<open>Title\<close> is still the number
  after enrichment, not its string form; and a \<^verbatim>\<open>Title\<close> that is present with the value
  \<^verbatim>\<open>False\<close> is replaced by the derived title, not by its string form either.
\<close>

theorem numeric_title_counterexample:
  "enrich (env_reply ''Notes from the conference'') ex_file_data ex_numeric_title_post
     = Inr ex_numeric_title_post
   \<and> dict_get (metadata ex_numeric_title_post) ''Title'' = PyInt 2024
   \<and> PyInt 2024 \<noteq> PyStr (py_str (PyInt 2024))
   \<and> map_of (metadata ex_false_title_post) ''Title'' = Some (PyBool False)
   \<and> py_str (PyBool False) = ''False''
   \<and> enrich env_down ex_file_data ex_false_title_post
     = Inr \<lparr>metadata = [(''Created'', PyStr ''2024-04-19''), (''Title'', PyStr ''Pytexas 2024''),
                        (''Description'', PyStr ''Notes from the conference'')],
            content = ''Talk notes''\<rparr>"
  by (simp add: eval_simps ex_numeric_title_post_def ex_false_title_post_def)

text \<open>
  Claim C6, amended. For a note whose \<^verbatim>\<open>Title\<close> is not a string:

  \<^item> if the value is one that Python counts as true (a number other than 0, \<^verbatim>\<open>True\<close>, a
    date), enrichment leaves the \<^verbatim>\<open>Title\<close> entry as it is. The string form of the value
    is what the generator is given as the title, and only when the \<^verbatim>\<open>Description\<close> does
    not count as true; when the \<^verbatim>\<open>Description\<close> counts as true, enrichment succeeds with
    the same result in every environment, so the generator is not consulted;

  \<^item> if the value does not count as true (0, \<^verbatim>\<open>False\<close>, \<^verbatim>\<open>None\<close>), it is taken as
    missing and the \<^verbatim>\<open>Title\<close> becomes the derived title.
\<close>

theorem nonstring_title_kept:
  assumes "\<not> isinstance_str (dict_get (metadata p) ''Title'')"
  shows "(truthy (dict_get (metadata p) ''Title'') \<longrightarrow>
           (\<forall>p'. enrich env file_data p = Inr p'
               \<longrightarrow> dict_get (metadata p') ''Title'' = dict_get (metadata p) ''Title'')
         \<and> (truthy (dict_get (metadata p) ''Description'')
               \<longrightarrow> (\<exists>p'. \<forall>env'. enrich env' file_data p = Inr p'))
         \<and> (\<not> truthy (dict_get (metadata p) ''Description'')
               \<longrightarrow> (\<forall>e. describe_text env (text_of file_data)
                            (py_str (dict_get (metadata p) ''Title'')) = Inl e
                          \<longrightarrow> enrich env file_data p = Inl e)
                 \<and> (\<forall>d. describe_text env (text_of file_data)
                            (py_str (dict_get (metadata p) ''Title'')) = Inr d
                          \<longrightarrow> (\<exists>p'. enrich env file_data p = Inr p'
                                 \<and> dict_get (metadata p') ''Description'' = PyStr d))))
       \<and> (\<not> truthy (dict_get (metadata p) ''Title'') \<longrightarrow>
           (\<forall>p'. enrich env file_data p = Inr p'
               \<longrightarrow> dict_get (metadata p') ''Title'' = PyStr (create_title file_data)))"
proof (cases "truthy (dict_get (metadata p) ''Title'')")
  case True
  have str: "ensure_str (dict_get (metadata p) ''Title'') = py_str (dict_get (metadata p) ''Title'')"
    using assms True by (cases "dict_get (metadata p) ''Title''") simp_all
  show ?thesis
    using True str
    by (auto simp: enrich_def Let_def dict_get_dict_set split: if_splits sum.splits)
next
  case False
  then show ?thesis
    using empty_values_are_filled(2) by blast
qed

theorem nonstring_title_kept_witness:
  "\<not> isinstance_str (dict_get (metadata ex_numeric_title_post) ''Title'')
   \<and> truthy (dict_get (metadata ex_numeric_title_post) ''Title'')
   \<and> truthy (dict_get (metadata ex_numeric_title_post) ''Description'')
   \<and> (\<exists>p'. \<forall>env'. enrich env' ex_file_data ex_numeric_title_post = Inr p')
   \<and> \<not> isinstance_str (dict_get (metadata ex_false_title_post) ''Title'')
   \<and> \<not> truthy (dict_get (metadata ex_false_title_post) ''Title'')
   \<and> (\<exists>p'. enrich env_down ex_file_data ex_false_title_post = Inr p'
          \<and> dict_get (metadata p') ''Title'' = PyStr (create_title ex_file_data))"
proof -
  have h1: "truthy (dict_get (metadata ex_numeric_title_post) ''Title'')"
    and h2: "\<not> isinstance_str (dict_get (metadata ex_numeric_title_post) ''Title'')"
    and h3: "truthy (dict_get (metadata ex_numeric_title_post) ''Description'')"
    by (simp_all add: ex_numeric_title_post_def dict_get_def)
  have g1: "\<not> truthy (dict_get (metadata ex_false_title_post) ''Title'')"
    and g2: "\<not> isinstance_str (dict_get (metadata ex_false_title_post) ''Title'')"
    by (simp_all add: ex_false_title_post_def dict_get_def)
  have run: "\<exists>p'. enrich env_down ex_file_data ex_false_title_post = Inr p'"
    by (simp add: enrich_def Let_def dict_get_def ex_false_title_post_def)
  have kept: "\<exists>p'. \<forall>env'. enrich env' ex_file_data ex_numeric_title_post = Inr p'"
    using h1 h3 nonstring_title_kept [OF h2, of env_down ex_file_data] by blast
  have replaced: "\<exists>p'. enrich env_down ex_file_data ex_false_title_post = Inr p'
          \<and> dict_get (metadata p') ''Title'' = PyStr (create_title ex_file_data)"
    using g1 run nonstring_title_kept [OF g2, of env_down ex_file_data] by blast
  show ?thesis
    using h1 h2 h3 g1 g2 kept replaced by blast
qed

text \<open>
  Claim C7, as the specification words it, fails: the description stored is the
  generator's answer as returned, surrounding whitespace included, not the trimmed answer.
\<close>

theorem untrimmed_description_counterexample:
  "enrich (env_reply ''  A talk  '') ex_file_data ex_empty_post
     = Inr \<lparr>metadata = [(''Created'', PyStr ''2024-04-19''), (''Title'', PyStr ''Pytexas 2024''),
                        (''Description'', PyStr ''  A talk  '')],
            content = ''Talk notes''\<rparr>
   \<and> py_strip ''  A talk  '' = ''A talk''"
  by (simp add: eval_simps ex_empty_post_def py_strip_def is_space_def)

text \<open>
  Claim C7, amended. For a note whose \<^verbatim>\<open>Description\<close> is missing, enrichment runs the
  agent once, on the prompt made of the title and the first 2000 characters of the file's
  text, where the title is the string form of the note's \<^verbatim>\<open>Title\<close> after the title step
  (the existing one, or the one just derived). An exception of the agent is the outcome of
  enrichment; an answer \<open>d\<close> is stored as the \<^verbatim>\<open>Description\<close> as it is. The outcome
  depends on the agent through its answer to this one prompt only.
\<close>

theorem description_from_generator:
  assumes "\<not> truthy (dict_get (metadata p) ''Description'')"
  shows "let title = (if truthy (dict_get (metadata p) ''Title'')
                      then ensure_str (dict_get (metadata p) ''Title'')
                      else create_title file_data);
             prompt = describe_prompt title (take 2000 (text_of file_data))
         in (\<forall>e. run_agent env summarizer prompt = Inl e \<longrightarrow> enrich env file_data p = Inl e)
          \<and> (\<forall>d. run_agent env summarizer prompt = Inr d
                  \<longrightarrow> (\<exists>p'. enrich env file_data p = Inr p'
                         \<and> dict_get (metadata p') ''Description'' = PyStr d
                         \<and> ensure_str (dict_get (metadata p') ''Title'') = title))
          \<and> (\<forall>env'. run_agent env' summarizer prompt = run_agent env summarizer prompt
                  \<longrightarrow> enrich env' file_data p = enrich env file_data p)"
  using assms
  by (auto simp: enrich_def Let_def describe_text_def dict_get_dict_set
      split: if_splits sum.splits)

theorem description_from_generator_witness:
  "\<not> truthy (dict_get (metadata ex_empty_post) ''Description'')
   \<and> \<not> truthy (dict_get (metadata ex_empty_post) ''Title'')
   \<and> create_title ex_long_file_data = ''Pytexas 2024''
   \<and> take 2000 (text_of ex_long_file_data) = replicate 2000 (CHR ''a'')
   \<and> run_agent (env_reply ''  A talk  '') summarizer
        (describe_prompt ''Pytexas 2024'' (replicate 2000 (CHR ''a''))) = Inr ''  A talk  ''
   \<and> (\<exists>p'. enrich (env_reply ''  A talk  '') ex_long_file_data ex_empty_post = Inr p'
         \<and> dict_get (metadata p') ''Description'' = PyStr ''  A talk  ''
         \<and> ensure_str (dict_get (metadata p') ''Title'') = ''Pytexas 2024'')"
proof -
  have h: "\<not> truthy (dict_get (metadata ex_empty_post) ''Description'')"
    and t: "\<not> truthy (dict_get (metadata ex_empty_post) ''Title'')"
    by (simp_all add: ex_empty_post_def dict_get_def)
  have title: "create_title ex_long_file_data = ''Pytexas 2024''"
    by (simp add: eval_simps)
  have excerpt: "take 2000 (text_of ex_long_file_data) = replicate 2000 (CHR ''a'')"
    by (simp add: ex_long_file_data_def)
  have answer: "run_agent (env_reply ''  A talk  '') summarizer
        (describe_prompt ''Pytexas 2024'' (replicate 2000 (CHR ''a''))) = Inr ''  A talk  ''"
    by (simp add: env_reply_def)
  note inst = description_from_generator [OF h, of ex_long_file_data "env_reply ''  A talk  ''",
      unfolded Let_def if_not_P [OF t] title excerpt]
  from inst have "\<forall>d. run_agent (env_reply ''  A talk  '') summarizer
        (describe_prompt ''Pytexas 2024'' (replicate 2000 (CHR ''a''))) = Inr d
                  \<longrightarrow> (\<exists>p'. enrich (env_reply ''  A talk  '') ex_long_file_data ex_empty_post = Inr p'
                         \<and> dict_get (metadata p') ''Description'' = PyStr d
                         \<and> ensure_str (dict_get (metadata p') ''Title'') = ''Pytexas 2024'')"
    by (rule conjunct1 [OF conjunct2])
  with answer have "\<exists>p'. enrich (env_reply ''  A talk  '') ex_long_file_data ex_empty_post = Inr p'
                         \<and> dict_get (metadata p') ''Description'' = PyStr ''  A talk  ''
                         \<and> ensure_str (dict_get (metadata p') ''Title'') = ''Pytexas 2024''"
    by blast
  with h t title excerpt answer show ?thesis
    by blast
qed

subsection \<open>Processing files\<close>

lemma process_all_append:
  "process_all env fs (xs @ ys) =
     (fst (process_all env (fst (process_all env fs xs)) ys),
      snd (process_all env fs xs) @ snd (process_all env (fst (process_all env fs xs)) ys))"
  by (induction xs arbitrary: fs) (simp_all add: split_beta)

lemma length_process_all: "length (snd (process_all env fs files)) = length files"
  by (induction files arbitrary: fs) (simp_all add: split_beta)

text \<open>
  Claim C4. When loading the file, parsing it or enriching it (the call of the agent
  included) raises, \<^verbatim>\<open>process_file\<close> leaves the whole file system as it was and prints
  the error; and a run over a list of files goes on after the failing file, from the same
  file system, with the files that follow it.
\<close>

theorem failure_writes_nothing_and_run_continues:
  assumes "process_all env fs before = (fs1, lines1)"
    and "get_file env fs1 file = Inl e
         \<or> (\<exists>file_data. get_file env fs1 file = Inr file_data
               \<and> (fm_loads env (text_of file_data) = Inl e
                  \<or> (\<exists>p. fm_loads env (text_of file_data) = Inr p
                          \<and> enrich env file_data p = Inl e)))"
  shows "process_file env fs1 file = (fs1, report e)
       \<and> process_all env fs (before @ file # after)
           = (fst (process_all env fs1 after),
              lines1 @ report e # snd (process_all env fs1 after))
       \<and> length (snd (process_all env fs (before @ file # after)))
           = length before + 1 + length after"
proof -
  have fail: "load_and_process env fs1 file = Inl e"
    using assms(2) by (auto simp: load_and_process_def process_post_def)
  then have one: "process_file env fs1 file = (fs1, report e)"
    by (simp add: process_file_def)
  have "process_all env fs (before @ file # after)
           = (fst (process_all env fs1 after),
              lines1 @ report e # snd (process_all env fs1 after))"
    using assms(1) one by (simp add: process_all_append split_beta)
  with one show ?thesis
    using length_process_all [of env fs "before @ file # after"] by simp
qed

theorem failure_writes_nothing_and_run_continues_witness:
  "process_all env_down ex_fs [ex_missing] = (ex_fs, [''Error: File not found: notes/gone.md''])
   \<and> get_file env_down ex_fs ex_path = Inr ex_file_data
   \<and> fm_loads env_down (text_of ex_file_data) = Inr ex_empty_post
   \<and> enrich env_down ex_file_data ex_empty_post = Inl (OtherException ''backend unavailable'')
   \<and> process_file env_down ex_fs ex_path = (ex_fs, ''Unexpected error: backend unavailable'')
   \<and> process_all env_down ex_fs ([ex_missing] @ ex_path # [ex_missing])
       = (ex_fs, [''Error: File not found: notes/gone.md'',
                  ''Unexpected error: backend unavailable'',
                  ''Error: File not found: notes/gone.md''])"
proof -
  have missing: "get_file env_down ex_fs ex_missing
      = Inl (FileNotFoundError ''File not found: notes/gone.md'')"
    by (simp add: get_file_def ex_fs_def ex_missing_def ex_path_def)
  then have gone: "process_file env_down ex_fs ex_missing
      = (ex_fs, ''Error: File not found: notes/gone.md'')"
    by (simp add: process_file_def load_and_process_def)
  then have before: "process_all env_down ex_fs [ex_missing]
      = (ex_fs, [''Error: File not found: notes/gone.md''])"
    by simp
  have load: "get_file env_down ex_fs ex_path = Inr ex_file_data"
    by (simp add: get_file_def ex_fs_def ex_file_data_def env_down_def)
  have parse: "fm_loads env_down (text_of ex_file_data) = Inr ex_empty_post"
    by (simp add: env_down_def ex_file_data_def ex_empty_post_def)
  have gen: "enrich env_down ex_file_data ex_empty_post = Inl (OtherException ''backend unavailable'')"
    by (simp add: eval_simps ex_empty_post_def)
  have step: "get_file env_down ex_fs ex_path = Inl (OtherException ''backend unavailable'')
         \<or> (\<exists>file_data. get_file env_down ex_fs ex_path = Inr file_data
               \<and> (fm_loads env_down (text_of file_data) = Inl (OtherException ''backend unavailable'')
                  \<or> (\<exists>p. fm_loads env_down (text_of file_data) = Inr p
                          \<and> enrich env_down file_data p = Inl (OtherException ''backend unavailable''))))"
    using load parse gen by simp
  show ?thesis
    using before load parse gen gone
      failure_writes_nothing_and_run_continues [OF before step, of "[ex_missing]"]
    by simp
qed

text \<open>
  A file that the parser reports as having no front matter and the whole text as content
  leaves \<^verbatim>\<open>process_post\<close> with exactly the three keys, in this order, and the same content.
\<close>

lemma process_post_without_front_matter:
  assumes "fm_loads env (text_of file_data) = Inr \<lparr>metadata = [], content = text_of file_data\<rparr>"
    and "describe_text env (text_of file_data) (create_title file_data) = Inr d"
  shows "process_post env file_data
     = Inr \<lparr>metadata = [(''Created'', PyStr (strftime_Ymd (creation_date file_data))),
                        (''Title'', PyStr (create_title file_data)),
                        (''Description'', PyStr d)],
            content = text_of file_data\<rparr>"
  using assms by (simp add: process_post_def enrich_def Let_def dict_get_def)

end
